theory Spec2Isabelle
  imports Main "HOL-Library.Word"
begin

section \<open>JSON documents and the document reader\<close>

text \<open>
  A decoded JSON document, as Go's \<^verbatim>\<open>interface{}\<close> holds it after decoding: an
  object is a \<^verbatim>\<open>map[string]interface{}\<close>, written here as an association list read
  with \<open>map_of\<close>; an array is a \<^verbatim>\<open>[]interface{}\<close>; a number is kept as its literal.
\<close>

datatype json =
    JNull
  | JBool bool
  | JNumber string
  | JString string
  | JArray "json list"
  | JObject "(string \<times> json) list"

text \<open>The Go type assertions \<^verbatim>\<open>x.(string)\<close>, \<^verbatim>\<open>x.([]interface{})\<close> and
  \<^verbatim>\<open>x.(map[string]interface{})\<close>: the value when the dynamic type fits, else not ok.\<close>

fun assertString :: "json \<Rightarrow> string option" where
  "assertString (JString s) = Some s"
| "assertString _ = None"

fun assertArray :: "json \<Rightarrow> json list option" where
  "assertArray (JArray vs) = Some vs"
| "assertArray _ = None"

fun assertMap :: "json \<Rightarrow> (string \<times> json) list option" where
  "assertMap (JObject m) = Some m"
| "assertMap _ = None"

text \<open>Indexing a Go map and asserting the type of what is found, \<^verbatim>\<open>v[tag].(string)\<close>: an
  absent key gives the nil interface, on which every assertion fails.\<close>

definition indexString :: "(string \<times> json) list \<Rightarrow> string \<Rightarrow> string option" where
  "indexString v tag = Option.bind (map_of v tag) assertString"

definition indexArray :: "(string \<times> json) list \<Rightarrow> string \<Rightarrow> json list option" where
  "indexArray v tag = Option.bind (map_of v tag) assertArray"

text \<open>
  The accessors of the JSON document reader (go-simplejson), a collaborator outside the
  repository: \<^verbatim>\<open>Get\<close> gives the member of an object, and the null document when the
  receiver is no object or has no such member; \<^verbatim>\<open>CheckGet\<close> also says whether the
  member was there; \<^verbatim>\<open>Map\<close> fails unless the document is an object;
  \<^verbatim>\<open>MustString\<close> gives the empty string unless the document is a string.
\<close>

definition Get :: "json \<Rightarrow> string \<Rightarrow> json" where
  "Get j key = (case assertMap j of
       None \<Rightarrow> JNull
     | Some m \<Rightarrow> (case map_of m key of None \<Rightarrow> JNull | Some val \<Rightarrow> val))"

definition CheckGet :: "json \<Rightarrow> string \<Rightarrow> json option" where
  "CheckGet j key = (case assertMap j of None \<Rightarrow> None | Some m \<Rightarrow> map_of m key)"

definition Map :: "json \<Rightarrow> (string \<times> json) list option" where
  "Map j = assertMap j"

definition MustString :: "json \<Rightarrow> string" where
  "MustString j = (case assertString j of None \<Rightarrow> [] | Some s \<Rightarrow> s)"

section \<open>Errors\<close>

text \<open>The \<^verbatim>\<open>Error\<close> struct of dynamodb.go.\<close>

record Error =
  StatusCode :: int
  Status :: string
  Code :: string
  Message :: string

text \<open>
  The values of Go's \<^verbatim>\<open>error\<close> interface that the code handles: the package's
  sentinel \<^verbatim>\<open>ErrNotFound\<close>, a fresh \<^verbatim>\<open>errors.New(message)\<close>, a \<^verbatim>\<open>*Error\<close>, and
  an error produced by a collaborator (HTTP transport, body reader, JSON reader).
\<close>

datatype error =
    ErrNotFound
  | ErrorsNew string
  | DdbError Error
  | External string

section \<open>Attributes and their decoding (item.go)\<close>

text \<open>The fields of \<^verbatim>\<open>Attribute\<close> that \<^verbatim>\<open>parseAttributes\<close> sets. A field the composite
  literal leaves out has Go's zero value: the empty string, the nil slice (here \<open>[]\<close>).\<close>

record Attribute =
  Type :: string
  Name :: string
  Value :: string
  SetValues :: "string list"

text \<open>Modelled from the spec: the six type tags are declared in a file that is not among
  the sources; the spec gives them as \<^verbatim>\<open>S\<close>, \<^verbatim>\<open>N\<close>, \<^verbatim>\<open>B\<close>, \<^verbatim>\<open>SS\<close>, \<^verbatim>\<open>NS\<close>, \<^verbatim>\<open>BS\<close>.\<close>

definition TYPE_STRING :: string where "TYPE_STRING = ''S''"
definition TYPE_NUMBER :: string where "TYPE_NUMBER = ''N''"
definition TYPE_BINARY :: string where "TYPE_BINARY = ''B''"
definition TYPE_STRING_SET :: string where "TYPE_STRING_SET = ''SS''"
definition TYPE_NUMBER_SET :: string where "TYPE_NUMBER_SET = ''NS''"
definition TYPE_BINARY_SET :: string where "TYPE_BINARY_SET = ''BS''"

text \<open>The inner loop that fills \<^verbatim>\<open>arry\<close>: a member that is a string is copied, any other
  member leaves the zero value of \<^verbatim>\<open>make([]string, len(vals))\<close>, the empty string.\<close>

definition fillArry :: "json list \<Rightarrow> string list" where
  "fillArry vals = map (\<lambda>ivalue. case assertString ivalue of Some val \<Rightarrow> val | None \<Rightarrow> []) vals"

text \<open>The body of the range loop of \<^verbatim>\<open>parseAttributes\<close> for one \<^verbatim>\<open>key, value\<close>: the
  attribute stored under \<^verbatim>\<open>key\<close>, or nothing stored (the six probes in the order of the
  source's else-if chain; a value that is no object is logged and skipped).\<close>

definition parseField :: "string \<Rightarrow> json \<Rightarrow> Attribute option" where
  "parseField key value =
    (case assertMap value of
       None \<Rightarrow> None
     | Some v \<Rightarrow>
        (case indexString v TYPE_STRING of
           Some val \<Rightarrow> Some \<lparr>Type = TYPE_STRING, Name = key, Value = val, SetValues = []\<rparr>
         | None \<Rightarrow>
        (case indexString v TYPE_NUMBER of
           Some val \<Rightarrow> Some \<lparr>Type = TYPE_NUMBER, Name = key, Value = val, SetValues = []\<rparr>
         | None \<Rightarrow>
        (case indexString v TYPE_BINARY of
           Some val \<Rightarrow> Some \<lparr>Type = TYPE_BINARY, Name = key, Value = val, SetValues = []\<rparr>
         | None \<Rightarrow>
        (case indexArray v TYPE_STRING_SET of
           Some vals \<Rightarrow>
             Some \<lparr>Type = TYPE_STRING_SET, Name = key, Value = [], SetValues = fillArry vals\<rparr>
         | None \<Rightarrow>
        (case indexArray v TYPE_NUMBER_SET of
           Some vals \<Rightarrow>
             Some \<lparr>Type = TYPE_NUMBER_SET, Name = key, Value = [], SetValues = fillArry vals\<rparr>
         | None \<Rightarrow>
        (case indexArray v TYPE_BINARY_SET of
           Some vals \<Rightarrow>
             Some \<lparr>Type = TYPE_BINARY_SET, Name = key, Value = [], SetValues = fillArry vals\<rparr>
         | None \<Rightarrow> None)))))))"

text \<open>\<^verbatim>\<open>parseAttributes\<close>: the result map starts empty and each field that decodes is
  stored under its key; a field that does not decode leaves the map as it is.\<close>

definition parseAttributes :: "(string \<times> json) list \<Rightarrow> (string \<rightharpoonup> Attribute)" where
  "parseAttributes s =
     fold (\<lambda>(key, value) results.
             case parseField key value of
               Some a \<Rightarrow> results(key \<mapsto> a)
             | None \<Rightarrow> results) s Map.empty"

section \<open>The service seen from the client\<close>

text \<open>
  A \<^verbatim>\<open>time.Duration\<close> is a signed 64-bit count of nanoseconds; its arithmetic wraps.
\<close>

type_synonym Duration = "64 word"

definition Millisecond :: Duration where "Millisecond = 1000000"
definition Second :: Duration where "Second = 1000000000"

text \<open>Modelled from the spec: \<^verbatim>\<open>Key\<close>, the key schema and \<^verbatim>\<open>Table\<close> are declared in
  files that are not among the sources. A key is a hash value and a range value; the
  schema of a table names the hash attribute and, when the table has one, the range
  attribute; \<^verbatim>\<open>Clone\<close> gives the schema's attributes with fresh values.\<close>

record Key =
  HashKey :: string
  RangeKey :: string

record PrimaryKey =
  KeyAttribute :: Attribute
  RangeAttribute :: "Attribute option"

datatype Table = Table (TableName: string) (TableKey: PrimaryKey)

definition Clone :: "PrimaryKey \<Rightarrow> string \<Rightarrow> string \<Rightarrow> Attribute list" where
  "Clone k h r =
     (KeyAttribute k)\<lparr>Value := h, SetValues := []\<rparr> #
     (case RangeAttribute k of
        None \<Rightarrow> []
      | Some ra \<Rightarrow> [ra\<lparr>Value := r, SetValues := []\<rparr>])"

text \<open>Modelled from the spec: the request builder is not among the sources. A query is
  recorded as the builder calls made on it, innermost first; nothing is said about the
  document they serialise to.\<close>

datatype Query =
    NewQuery Table
  | NewEmptyQuery
  | AddKey Table Key Query
  | AddItem "Attribute list" Query
  | AddExpected "Attribute list" Query
  | AddUpdates "Attribute list" string Query
  | ConsistentRead bool Query
  | AddWriteRequestItems "(Table \<times> (string \<times> Attribute list list) list) list" Query

text \<open>
  What a run does to the outside: a call of \<^verbatim>\<open>queryServer\<close> (target, query, retry flag),
  an HTTP exchange of \<^verbatim>\<open>rawQueryServer\<close> (target, body), a blocking wait. The world
  holds the answers the outside will give to the coming calls, in order, and the log of
  what was done so far.
\<close>

datatype event =
    Sent string Query bool
  | Requested string string
  | Slept Duration

record 'r world =
  pending :: "nat \<Rightarrow> 'r"
  log :: "event list"

definition consume :: "event \<Rightarrow> 'r world \<Rightarrow> 'r \<times> 'r world" where
  "consume ev w = (pending w 0, \<lparr>pending = (\<lambda>n. pending w (Suc n)), log = log w @ [ev]\<rparr>)"

definition sleepFor :: "Duration \<Rightarrow> 'r world \<Rightarrow> 'r world" where
  "sleepFor d w = w\<lparr>log := log w @ [Slept d]\<rparr>"

text \<open>The Go pair \<^verbatim>\<open>([]byte, error)\<close>; a nil error is \<open>None\<close>, nil bytes are \<open>[]\<close>.\<close>

type_synonym reply = "string \<times> error option"

text \<open>Modelled from the spec: \<^verbatim>\<open>queryServer\<close> with the retry flag, as item.go calls it,
  is not among the sources. It is the Send contract of the spec, giving response bytes or an
  error; its answers to successive calls are the pending replies of the world.\<close>

definition queryServer :: "string \<Rightarrow> Query \<Rightarrow> bool \<Rightarrow> reply world \<Rightarrow> reply \<times> reply world" where
  "queryServer tgt q isRetry w = consume (Sent tgt q isRetry) w"

definition target :: "string \<Rightarrow> string" where
  "target name = ''DynamoDB_20120810.'' @ name"

text \<open>\<^verbatim>\<open>simplejson.NewJson\<close> is a parameter of every function that parses a body: it gives
  the document of a body or the reader's error.\<close>

type_synonym NewJson = "string \<Rightarrow> error + json"

section \<open>putItem and its retry loop (item.go)\<close>

definition maxNumberOfRetry :: nat where
  "maxNumberOfRetry = 4"

text \<open>The value of \<^verbatim>\<open>retry\<close> after lines 202 to 210: false unless the error is an
  \<^verbatim>\<open>*Error\<close> with status 500 or one of the two throttling codes.\<close>

definition retry :: "error option \<Rightarrow> bool" where
  "retry err =
     (case err of
        Some (DdbError e) \<Rightarrow>
          StatusCode e = 500 \<or> Code e = ''ThrottlingException''
            \<or> Code e = ''ProvisionedThroughputExceededException''
      | _ \<Rightarrow> False)"

text \<open>\<^verbatim>\<open>(1 << currentRetry) * 50 * time.Millisecond\<close>.\<close>

definition backoff :: "nat \<Rightarrow> Duration" where
  "backoff currentRetry = push_bit currentRetry 1 * 50 * Millisecond"

text \<open>The \<^verbatim>\<open>for\<close> loop of \<^verbatim>\<open>putItem\<close>; \<^verbatim>\<open>currentRetry\<close> is a \<^verbatim>\<open>uint\<close> that the loop
  never takes beyond \<^verbatim>\<open>maxNumberOfRetry\<close>.\<close>

function putItem_loop ::
  "string \<Rightarrow> Query \<Rightarrow> bool \<Rightarrow> nat \<Rightarrow> reply world \<Rightarrow> reply \<times> reply world" where
  "putItem_loop tgt q isRetry currentRetry w =
     (case queryServer tgt q isRetry w of
        (r, w1) \<Rightarrow>
          if currentRetry \<ge> maxNumberOfRetry then (r, w1)
          else if \<not> retry (snd r) then (r, w1)
          else putItem_loop tgt q isRetry (currentRetry + 1) (sleepFor (backoff currentRetry) w1))"
  by pat_completeness auto
termination
  by (relation "measure (\<lambda>(tgt, q, isRetry, currentRetry, w). maxNumberOfRetry - currentRetry)")
    auto

declare putItem_loop.simps [simp del]

definition putItem ::
  "NewJson \<Rightarrow> Table \<Rightarrow> string \<Rightarrow> string \<Rightarrow> Attribute list \<Rightarrow> Attribute list option \<Rightarrow> bool
     \<Rightarrow> reply world \<Rightarrow> (bool \<times> error option) \<times> reply world" where
  "putItem NewJson t hashKey rangeKey attributes expected isRetry w =
     (if length attributes = 0
      then ((False, Some (ErrorsNew ''At least one attribute is required.'')), w)
      else
        let keys = Clone (TableKey t) hashKey rangeKey;
            q = AddItem (attributes @ keys) (NewQuery t);
            q = (case expected of None \<Rightarrow> q | Some ex \<Rightarrow> AddExpected ex q)
        in case putItem_loop (target ''PutItem'') q isRetry 0 w of
             ((jsonResponse, err), w') \<Rightarrow>
               (case err of
                  Some e \<Rightarrow> ((False, Some e), w')
                | None \<Rightarrow>
                   (case NewJson jsonResponse of
                      Inl e \<Rightarrow> ((False, Some e), w')
                    | Inr _ \<Rightarrow> ((True, None), w'))))"

definition PutItem ::
  "NewJson \<Rightarrow> Table \<Rightarrow> string \<Rightarrow> string \<Rightarrow> Attribute list \<Rightarrow> bool
     \<Rightarrow> reply world \<Rightarrow> (bool \<times> error option) \<times> reply world" where
  "PutItem NewJson t hashKey rangeKey attributes isRetry =
     putItem NewJson t hashKey rangeKey attributes None isRetry"

definition ConditionalPutItem ::
  "NewJson \<Rightarrow> Table \<Rightarrow> string \<Rightarrow> string \<Rightarrow> Attribute list \<Rightarrow> Attribute list \<Rightarrow> bool
     \<Rightarrow> reply world \<Rightarrow> (bool \<times> error option) \<times> reply world" where
  "ConditionalPutItem NewJson t hashKey rangeKey attributes expected isRetry =
     putItem NewJson t hashKey rangeKey attributes (Some expected) isRetry"

section \<open>The other item operations (item.go)\<close>

text \<open>\<^verbatim>\<open>modifyAttributes\<close> and the six operations that go through it.\<close>

definition modifyAttributes ::
  "NewJson \<Rightarrow> Table \<Rightarrow> Key \<Rightarrow> Attribute list \<Rightarrow> Attribute list option \<Rightarrow> string \<Rightarrow> bool
     \<Rightarrow> reply world \<Rightarrow> (bool \<times> error option) \<times> reply world" where
  "modifyAttributes NewJson t key attributes expected action isRetry w =
     (if length attributes = 0
      then ((False, Some (ErrorsNew ''At least one attribute is required.'')), w)
      else
        let q = AddUpdates attributes action (AddKey t key (NewQuery t));
            q = (case expected of None \<Rightarrow> q | Some ex \<Rightarrow> AddExpected ex q)
        in case queryServer (target ''UpdateItem'') q isRetry w of
             ((jsonResponse, err), w') \<Rightarrow>
               (case err of
                  Some e \<Rightarrow> ((False, Some e), w')
                | None \<Rightarrow>
                   (case NewJson jsonResponse of
                      Inl e \<Rightarrow> ((False, Some e), w')
                    | Inr _ \<Rightarrow> ((True, None), w'))))"

definition AddAttributes ::
  "NewJson \<Rightarrow> Table \<Rightarrow> Key \<Rightarrow> Attribute list \<Rightarrow> bool
     \<Rightarrow> reply world \<Rightarrow> (bool \<times> error option) \<times> reply world" where
  "AddAttributes NewJson t key attributes isRetry =
     modifyAttributes NewJson t key attributes None ''ADD'' isRetry"

definition UpdateAttributes ::
  "NewJson \<Rightarrow> Table \<Rightarrow> Key \<Rightarrow> Attribute list \<Rightarrow> bool
     \<Rightarrow> reply world \<Rightarrow> (bool \<times> error option) \<times> reply world" where
  "UpdateAttributes NewJson t key attributes isRetry =
     modifyAttributes NewJson t key attributes None ''PUT'' isRetry"

definition DeleteAttributes ::
  "NewJson \<Rightarrow> Table \<Rightarrow> Key \<Rightarrow> Attribute list \<Rightarrow> bool
     \<Rightarrow> reply world \<Rightarrow> (bool \<times> error option) \<times> reply world" where
  "DeleteAttributes NewJson t key attributes isRetry =
     modifyAttributes NewJson t key attributes None ''DELETE'' isRetry"

definition ConditionalAddAttributes ::
  "NewJson \<Rightarrow> Table \<Rightarrow> Key \<Rightarrow> Attribute list \<Rightarrow> Attribute list \<Rightarrow> bool
     \<Rightarrow> reply world \<Rightarrow> (bool \<times> error option) \<times> reply world" where
  "ConditionalAddAttributes NewJson t key attributes expected isRetry =
     modifyAttributes NewJson t key attributes (Some expected) ''ADD'' isRetry"

definition ConditionalUpdateAttributes ::
  "NewJson \<Rightarrow> Table \<Rightarrow> Key \<Rightarrow> Attribute list \<Rightarrow> Attribute list \<Rightarrow> bool
     \<Rightarrow> reply world \<Rightarrow> (bool \<times> error option) \<times> reply world" where
  "ConditionalUpdateAttributes NewJson t key attributes expected isRetry =
     modifyAttributes NewJson t key attributes (Some expected) ''PUT'' isRetry"

definition ConditionalDeleteAttributes ::
  "NewJson \<Rightarrow> Table \<Rightarrow> Key \<Rightarrow> Attribute list \<Rightarrow> Attribute list \<Rightarrow> bool
     \<Rightarrow> reply world \<Rightarrow> (bool \<times> error option) \<times> reply world" where
  "ConditionalDeleteAttributes NewJson t key attributes expected isRetry =
     modifyAttributes NewJson t key attributes (Some expected) ''DELETE'' isRetry"

text \<open>\<^verbatim>\<open>getItem\<close>: the Go pair \<^verbatim>\<open>(map[string]*Attribute, error)\<close>, a nil map being
  \<open>None\<close>.\<close>

definition getItem ::
  "NewJson \<Rightarrow> Table \<Rightarrow> Key \<Rightarrow> bool \<Rightarrow> bool
     \<Rightarrow> reply world \<Rightarrow> ((string \<rightharpoonup> Attribute) option \<times> error option) \<times> reply world" where
  "getItem NewJson t key consistentRead isRetry w =
     (let q = AddKey t key (NewQuery t);
          q = (if consistentRead then ConsistentRead consistentRead q else q)
      in case queryServer (target ''GetItem'') q isRetry w of
           ((jsonResponse, err), w') \<Rightarrow>
             (case err of
                Some e \<Rightarrow> ((None, Some e), w')
              | None \<Rightarrow>
                 (case NewJson jsonResponse of
                    Inl e \<Rightarrow> ((None, Some e), w')
                  | Inr json \<Rightarrow>
                     (case CheckGet json ''Item'' of
                        None \<Rightarrow> ((None, Some ErrNotFound), w')
                      | Some itemJson \<Rightarrow>
                         (case Map itemJson of
                            None \<Rightarrow>
                              ((None, Some (ErrorsNew (''Unexpected response '' @ jsonResponse))), w')
                          | Some item \<Rightarrow> ((Some (parseAttributes item), None), w'))))))"

definition GetItem ::
  "NewJson \<Rightarrow> Table \<Rightarrow> Key \<Rightarrow> bool
     \<Rightarrow> reply world \<Rightarrow> ((string \<rightharpoonup> Attribute) option \<times> error option) \<times> reply world" where
  "GetItem NewJson t key isRetry = getItem NewJson t key False isRetry"

definition GetItemConsistent ::
  "NewJson \<Rightarrow> Table \<Rightarrow> Key \<Rightarrow> bool \<Rightarrow> bool
     \<Rightarrow> reply world \<Rightarrow> ((string \<rightharpoonup> Attribute) option \<times> error option) \<times> reply world" where
  "GetItemConsistent NewJson t key consistentRead isRetry =
     getItem NewJson t key consistentRead isRetry"

text \<open>\<^verbatim>\<open>BatchWriteItem.Execute\<close>, on the item actions of the batch; the Go pair
  \<^verbatim>\<open>(map[string]interface{}, error)\<close>.\<close>

definition BatchWriteItem_Execute ::
  "NewJson \<Rightarrow> (Table \<times> (string \<times> Attribute list list) list) list \<Rightarrow> bool
     \<Rightarrow> reply world \<Rightarrow> ((string \<times> json) list option \<times> error option) \<times> reply world" where
  "BatchWriteItem_Execute NewJson ItemActions isRetry w =
     (let q = AddWriteRequestItems ItemActions NewEmptyQuery
      in case queryServer ''DynamoDB_20120810.BatchWriteItem'' q isRetry w of
           ((jsonResponse, err), w') \<Rightarrow>
             (case err of
                Some e \<Rightarrow> ((None, Some e), w')
              | None \<Rightarrow>
                 (case NewJson jsonResponse of
                    Inl e \<Rightarrow> ((None, Some e), w')
                  | Inr json \<Rightarrow>
                     (case Map (Get json ''UnprocessedItems'') of
                        None \<Rightarrow>
                          ((None, Some (ErrorsNew (''Unexpected response '' @ jsonResponse))), w')
                      | Some unprocessed \<Rightarrow>
                          if length unprocessed = 0 then ((None, None), w')
                          else ((Some unprocessed,
                                 Some (ErrorsNew ''One or more unprocessed items.'')), w')))))"

section \<open>The transport (dynamodb.go, query.go)\<close>

text \<open>What \<^verbatim>\<open>buildError\<close> reads of an \<^verbatim>\<open>http.Response\<close>, and its body once read.\<close>

datatype Response = Response (RespStatusCode: int) (RespStatus: string) (RespBody: string)

text \<open>\<^verbatim>\<open>strings.Index\<close> for a separator of one byte: the index of its first occurrence,
  or \<open>-1\<close>.\<close>

fun Index :: "string \<Rightarrow> char \<Rightarrow> int" where
  "Index [] sep = - 1"
| "Index (c # cs) sep =
     (if c = sep then 0 else (let i = Index cs sep in if i < 0 then - 1 else i + 1))"

definition buildError :: "NewJson \<Rightarrow> Response \<Rightarrow> string \<Rightarrow> Error" where
  "buildError NewJson r jsonBody =
     (let ddbError = \<lparr>StatusCode = RespStatusCode r, Status = RespStatus r,
                       Code = [], Message = []\<rparr>
      in case NewJson jsonBody of
           Inl err \<Rightarrow> ddbError\<lparr>Code := ''Failed to parse body as JSON''\<rparr>
         | Inr json \<Rightarrow>
            (let ddbError = ddbError\<lparr>Message := MustString (Get json ''message'')\<rparr>;
                 codeStr = MustString (Get json ''__type'');
                 hashIndex = Index codeStr CHR ''#'';
                 codeStr = (if hashIndex > 0 then drop (nat (hashIndex + 1)) codeStr else codeStr)
             in ddbError\<lparr>Code := codeStr\<rparr>))"

definition ProvisionedThroughputExceeded :: string where
  "ProvisionedThroughputExceeded = ''ProvisionedThroughputExceededException''"

text \<open>The outcome of one HTTP exchange: an error of \<^verbatim>\<open>http.NewRequest\<close>, of
  \<^verbatim>\<open>Do\<close> or of \<^verbatim>\<open>ioutil.ReadAll\<close>, each returned as it is, or a response.\<close>

datatype outcome = TransportError error | Answer Response

text \<open>
  \<^verbatim>\<open>rawQueryServer\<close>. \<^verbatim>\<open>retryCount\<close> is a Go \<^verbatim>\<open>int\<close>, 64 bits wide and signed:
  \<open>sint\<close> reads it, \<open>+\<close> wraps, and the conversion to \<^verbatim>\<open>time.Duration\<close> keeps the
  bits. The recursion has no bound of its own, so a run that never returns is \<open>None\<close>.
\<close>

partial_function (option) rawQueryServer ::
  "NewJson \<Rightarrow> string \<Rightarrow> string \<Rightarrow> 64 word \<Rightarrow> outcome world \<Rightarrow> (reply \<times> outcome world) option"
where
  "rawQueryServer NewJson tgt query retryCount w =
     (case consume (Requested tgt query) w of
        (TransportError err, w1) \<Rightarrow> Some (([], Some err), w1)
      | (Answer resp, w1) \<Rightarrow>
          if RespStatusCode resp \<noteq> 200
          then (let ddbErr = buildError NewJson resp (RespBody resp)
                in if Code ddbErr = ProvisionedThroughputExceeded \<and> 0 \<le> sint retryCount
                   then rawQueryServer NewJson tgt query (retryCount + 1)
                          (sleepFor ((retryCount + 1) * Second) w1)
                   else Some (([], Some (DdbError ddbErr)), w1))
          else Some ((RespBody resp, None), w1))"

text \<open>The first statements of \<^verbatim>\<open>RawQueryTable\<close>, up to the call of the transport: the
  retry counter starts at 0 when the caller opts in and at \<open>-1\<close> when not.\<close>

definition RawQueryTable_request ::
  "NewJson \<Rightarrow> string \<Rightarrow> string \<Rightarrow> bool \<Rightarrow> outcome world \<Rightarrow> (reply \<times> outcome world) option" where
  "RawQueryTable_request NewJson query tgt isRetry w =
     (let retryCount = (if \<not> isRetry then - 1 else 0)
      in rawQueryServer NewJson (''DynamoDB_20120810.'' @ tgt) query retryCount w)"

section \<open>The attribute codec as the spec words it\<close>

text \<open>Modelled from the spec: the encoder is not among the sources. The wire object of an
  attribute has one member, named by the type tag: the list of the members for the three
  set types, the single payload otherwise.\<close>

definition SetType :: "Attribute \<Rightarrow> bool" where
  "SetType a \<longleftrightarrow> Type a \<in> {TYPE_STRING_SET, TYPE_NUMBER_SET, TYPE_BINARY_SET}"

definition Encode :: "Attribute \<Rightarrow> json" where
  "Encode a =
     JObject [(Type a, if SetType a then JArray (map JString (SetValues a))
                       else JString (Value a))]"

text \<open>The attributes the data model supports: one of the six types, with the payload form
  of its type populated and the other one left at its zero value; a set has a member.\<close>

definition supported :: "Attribute \<Rightarrow> bool" where
  "supported a \<longleftrightarrow>
     (Type a \<in> {TYPE_STRING, TYPE_NUMBER, TYPE_BINARY} \<and> SetValues a = []) \<or>
     (Type a \<in> {TYPE_STRING_SET, TYPE_NUMBER_SET, TYPE_BINARY_SET}
        \<and> Value a = [] \<and> SetValues a \<noteq> [])"






section \<open>Runs, traces and examples\<close>

text \<open>The answers of the outside as a script: the listed answers in order, then the same
  answer for ever.\<close>

definition script :: "'r list \<Rightarrow> 'r \<Rightarrow> nat \<Rightarrow> 'r" where
  "script rs d n = (if n < length rs then rs ! n else d)"

text \<open>A document reader given by a table of bodies: it reads the bodies of the table and
  rejects every other one.\<close>

definition readerOf :: "(string \<times> json) list \<Rightarrow> NewJson" where
  "readerOf docs body =
     (case map_of docs body of Some j \<Rightarrow> Inr j | None \<Rightarrow> Inl (External ''invalid JSON''))"

text \<open>The number of \<^verbatim>\<open>queryServer\<close> calls in a log.\<close>

fun attempts :: "event list \<Rightarrow> nat" where
  "attempts [] = 0"
| "attempts (Sent tgt q isRetry # es) = Suc (attempts es)"
| "attempts (e # es) = attempts es"

text \<open>The log of a run of the loop of \<^verbatim>\<open>putItem\<close> that starts with \<^verbatim>\<open>currentRetry\<close> at
  \<open>c\<close> and retries \<open>m\<close> times: each call but the last is followed by its wait.\<close>

definition putTrace :: "string \<Rightarrow> Query \<Rightarrow> bool \<Rightarrow> nat \<Rightarrow> nat \<Rightarrow> event list" where
  "putTrace tgt q isRetry c m =
     concat (map (\<lambda>k. [Sent tgt q isRetry, Slept (backoff (c + k))]) [0..<m])
       @ [Sent tgt q isRetry]"

text \<open>An exchange is throttled when its answer is not a 200 and the code that
  \<^verbatim>\<open>buildError\<close> extracts is the throughput code; \<open>answer\<close> is what
  \<^verbatim>\<open>rawQueryServer\<close> returns for an exchange it does not retry.\<close>

definition throttled :: "NewJson \<Rightarrow> outcome \<Rightarrow> bool" where
  "throttled NewJson out =
     (case out of
        TransportError err \<Rightarrow> False
      | Answer resp \<Rightarrow>
          RespStatusCode resp \<noteq> 200 \<and>
          Code (buildError NewJson resp (RespBody resp)) = ProvisionedThroughputExceeded)"

definition answer :: "NewJson \<Rightarrow> outcome \<Rightarrow> reply" where
  "answer NewJson out =
     (case out of
        TransportError err \<Rightarrow> ([], Some err)
      | Answer resp \<Rightarrow>
          if RespStatusCode resp \<noteq> 200
          then ([], Some (DdbError (buildError NewJson resp (RespBody resp))))
          else (RespBody resp, None))"

text \<open>The log of a run of \<^verbatim>\<open>rawQueryServer\<close> that starts with \<^verbatim>\<open>retryCount\<close> at
  \<open>rc\<close> and retries \<open>n\<close> times.\<close>

definition rawTrace :: "string \<Rightarrow> string \<Rightarrow> 64 word \<Rightarrow> nat \<Rightarrow> event list" where
  "rawTrace tgt query rc n =
     concat (map (\<lambda>k. [Requested tgt query, Slept ((rc + word_of_nat (Suc k)) * Second)]) [0..<n])
       @ [Requested tgt query]"

text \<open>The code of an error as the spec words it: the suffix after the last \<open>#\<close> of the
  type string, the whole string when it has no \<open>#\<close>.\<close>

definition Code_spec :: "string \<Rightarrow> string" where
  "Code_spec typeStr =
     (if CHR ''#'' \<in> set typeStr then rev (takeWhile (\<lambda>c. c \<noteq> CHR ''#'') (rev typeStr))
      else typeStr)"

text \<open>Values for the examples: a table with a hash key, a key, an attribute, two service
  errors, a throttling answer and its body read.\<close>

definition exampleTable :: Table where
  "exampleTable =
     Table ''T'' \<lparr>KeyAttribute = \<lparr>Type = ''S'', Name = ''id'', Value = [], SetValues = []\<rparr>,
                  RangeAttribute = None\<rparr>"

definition exampleKey :: Key where
  "exampleKey = \<lparr>HashKey = ''h'', RangeKey = []\<rparr>"

definition exampleAttribute :: Attribute where
  "exampleAttribute = \<lparr>Type = ''S'', Name = ''colour'', Value = ''red'', SetValues = []\<rparr>"

definition serverError :: reply where
  "serverError =
     ([], Some (DdbError \<lparr>StatusCode = 500, Status = ''500 Internal Server Error'',
                          Code = ''InternalServerError'', Message = []\<rparr>))"

definition validationError :: reply where
  "validationError =
     ([], Some (DdbError \<lparr>StatusCode = 400, Status = ''400 Bad Request'',
                          Code = ''ValidationException'', Message = []\<rparr>))"

definition throttleAnswer :: outcome where
  "throttleAnswer = Answer (Response 400 ''400 Bad Request'' ''throttle'')"

definition exampleReader :: NewJson where
  "exampleReader =
     readerOf
       [(''{}'', JObject []),
        (''item'', JObject [(''Item'', JObject [])]),
        (''done'', JObject [(''UnprocessedItems'', JObject [])]),
        (''left'', JObject [(''UnprocessedItems'', JObject [(''T'', JArray [JObject []])])]),
        (''validation'',
           JObject [(''__type'', JString ''com.amazon.coral.validate#ValidationException'')]),
        (''plain'', JObject [(''__type'', JString ''ValidationException'')]),
        (''nested'', JObject [(''__type'', JString ''a#b#c'')]),
        (''throttle'',
           JObject [(''__type'',
             JString ''com.amazonaws.dynamodb.v20120810#ProvisionedThroughputExceededException'')])]"

section \<open>Decoding of items\<close>




lemma fold_parseField:
  "distinct (map fst s) \<Longrightarrow>
   fold (\<lambda>(key, value) results.
             case parseField key value of
               Some a \<Rightarrow> results(key \<mapsto> a)
             | None \<Rightarrow> results) s m k =
   (case map_of s k of
      None \<Rightarrow> m k
    | Some v \<Rightarrow> (case parseField k v of Some a \<Rightarrow> Some a | None \<Rightarrow> m k))"
proof (induction s arbitrary: m)
  case Nil
  then show ?case by simp
next
  case (Cons p s)
  obtain key val where p: "p = (key, val)" by (cases p)
  from Cons.prems have d: "distinct (map fst s)" and nk: "key \<notin> fst ` set s"
    by (auto simp: p)
  have mk: "map_of s key = None" using nk by (simp add: map_of_eq_None_iff)
  show ?case
    using mk by (auto simp: p Cons.IH [OF d] split: option.splits)
qed

text \<open>On a Go map (no key twice) the decoded item holds, under each key, the decoding of
  that key's field, and nothing under a key whose field does not decode.\<close>

lemma parseAttributes_lookup:
  "distinct (map fst s) \<Longrightarrow>
   parseAttributes s k = (case map_of s k of None \<Rightarrow> None | Some v \<Rightarrow> parseField k v)"
  by (simp add: parseAttributes_def fold_parseField split: option.splits)



lemma fillArry_JString: "fillArry (map JString xs) = xs"
  by (simp add: fillArry_def comp_def)

text \<open>
  C9. Round trip: for every supported attribute \<open>a\<close> (a String, Number or Binary with its
  payload, or a StringSet, NumberSet or BinarySet with one or more members), decoding the
  item that holds the wire encoding of \<open>a\<close> under the name of \<open>a\<close> gives back \<open>a\<close>
  unchanged, and nothing else.
\<close>

theorem decode_encode_roundtrip:
  assumes "supported a"
  shows "parseAttributes [(Name a, Encode a)] = [Name a \<mapsto> a]"
  using assms
  by (auto simp: supported_def parseAttributes_def parseField_def Encode_def SetType_def
      indexString_def indexArray_def fillArry_JString
      TYPE_STRING_def TYPE_NUMBER_def TYPE_BINARY_def
      TYPE_STRING_SET_def TYPE_NUMBER_SET_def TYPE_BINARY_SET_def)

theorem decode_encode_roundtrip_witness:
  "supported \<lparr>Type = ''NS'', Name = ''sizes'', Value = [], SetValues = [''1'', ''20'', ''3'']\<rparr> \<and>
   parseAttributes
     [(''sizes'', Encode \<lparr>Type = ''NS'', Name = ''sizes'', Value = [],
                           SetValues = [''1'', ''20'', ''3'']\<rparr>)] =
   [''sizes'' \<mapsto> \<lparr>Type = ''NS'', Name = ''sizes'', Value = [],
                    SetValues = [''1'', ''20'', ''3'']\<rparr>]"
proof -
  have s: "supported \<lparr>Type = ''NS'', Name = ''sizes'', Value = [],
                      SetValues = [''1'', ''20'', ''3'']\<rparr>"
    by (simp add: supported_def TYPE_NUMBER_SET_def)
  show ?thesis using s decode_encode_roundtrip [OF s] by simp
qed

section \<open>Empty attribute lists\<close>

text \<open>
  C10. With an empty list of attributes, \<^verbatim>\<open>putItem\<close> (hence \<^verbatim>\<open>PutItem\<close> and
  \<^verbatim>\<open>ConditionalPutItem\<close>) and \<^verbatim>\<open>modifyAttributes\<close> (hence the Add, Update and Delete
  operations and their conditional variants) return false with the error
  "At least one attribute is required." and leave the world as it was: no query is built,
  nothing is sent, no reply is consumed.
\<close>

theorem empty_attributes_rejected:
  "putItem NewJson t hashKey rangeKey [] expected isRetry w =
     ((False, Some (ErrorsNew ''At least one attribute is required.'')), w) \<and>
   PutItem NewJson t hashKey rangeKey [] isRetry w =
     ((False, Some (ErrorsNew ''At least one attribute is required.'')), w) \<and>
   ConditionalPutItem NewJson t hashKey rangeKey [] ex isRetry w =
     ((False, Some (ErrorsNew ''At least one attribute is required.'')), w) \<and>
   modifyAttributes NewJson t key [] expected action isRetry w =
     ((False, Some (ErrorsNew ''At least one attribute is required.'')), w) \<and>
   AddAttributes NewJson t key [] isRetry w =
     ((False, Some (ErrorsNew ''At least one attribute is required.'')), w) \<and>
   UpdateAttributes NewJson t key [] isRetry w =
     ((False, Some (ErrorsNew ''At least one attribute is required.'')), w) \<and>
   DeleteAttributes NewJson t key [] isRetry w =
     ((False, Some (ErrorsNew ''At least one attribute is required.'')), w) \<and>
   ConditionalAddAttributes NewJson t key [] ex isRetry w =
     ((False, Some (ErrorsNew ''At least one attribute is required.'')), w) \<and>
   ConditionalUpdateAttributes NewJson t key [] ex isRetry w =
     ((False, Some (ErrorsNew ''At least one attribute is required.'')), w) \<and>
   ConditionalDeleteAttributes NewJson t key [] ex isRetry w =
     ((False, Some (ErrorsNew ''At least one attribute is required.'')), w)"
  by (simp add: putItem_def PutItem_def ConditionalPutItem_def modifyAttributes_def
      AddAttributes_def UpdateAttributes_def DeleteAttributes_def
      ConditionalAddAttributes_def ConditionalUpdateAttributes_def
      ConditionalDeleteAttributes_def)

section \<open>The retry loop of putItem\<close>

lemma attempts_append: "attempts (xs @ ys) = attempts xs + attempts ys"
  by (induction xs rule: attempts.induct) auto

lemma putTrace_Suc:
  "putTrace tgt q isRetry c (Suc m) =
     Sent tgt q isRetry # Slept (backoff c) # putTrace tgt q isRetry (Suc c) m"
  by (simp add: putTrace_def upt_conv_Cons map_Suc_upt [symmetric] comp_def del: upt_Suc)

lemma attempts_putTrace: "attempts (putTrace tgt q isRetry c m) = Suc m"
  by (induction m arbitrary: c) (simp_all add: putTrace_Suc, simp add: putTrace_def)

lemma putItem_loop_run:
  assumes "c + m \<le> maxNumberOfRetry"
    and "\<forall>n<m. retry (snd (pending w n))"
    and "c + m = maxNumberOfRetry \<or> \<not> retry (snd (pending w m))"
  shows "putItem_loop tgt q isRetry c w =
           (pending w m,
            \<lparr>pending = (\<lambda>n. pending w (n + Suc m)),
             log = log w @ putTrace tgt q isRetry c m\<rparr>)"
  using assms
proof (induction m arbitrary: c w)
  case 0
  then show ?case
    by (subst putItem_loop.simps)
      (auto simp: queryServer_def consume_def putTrace_def)
next
  case (Suc m)
  let ?w1 = "\<lparr>pending = (\<lambda>n. pending w (Suc n)), log = log w @ [Sent tgt q isRetry]\<rparr>"
  let ?w2 = "sleepFor (backoff c) ?w1"
  have c: "\<not> maxNumberOfRetry \<le> c" using Suc.prems(1) by simp
  have r0: "retry (snd (pending w 0))" using Suc.prems(2) by simp
  have step: "putItem_loop tgt q isRetry c w = putItem_loop tgt q isRetry (c + 1) ?w2"
    using c r0 by (subst putItem_loop.simps) (simp add: queryServer_def consume_def)
  have p2: "pending ?w2 = (\<lambda>n. pending w (Suc n))" by (simp add: sleepFor_def)
  have "putItem_loop tgt q isRetry (c + 1) ?w2 =
          (pending ?w2 m,
            \<lparr>pending = (\<lambda>n. pending ?w2 (n + Suc m)),
             log = log ?w2 @ putTrace tgt q isRetry (c + 1) m\<rparr>)"
    using Suc.prems by (intro Suc.IH) (auto simp: p2)
  then show ?case
    by (simp add: step p2 putTrace_Suc sleepFor_def)
qed

lemma stop_index:
  assumes "c \<le> maxNumberOfRetry"
  shows "\<exists>m. c + m \<le> maxNumberOfRetry \<and> (\<forall>n<m. retry (snd (pending w n))) \<and>
             (c + m = maxNumberOfRetry \<or> \<not> retry (snd (pending w m)))"
proof -
  define P where "P n \<longleftrightarrow> c + n = maxNumberOfRetry \<or> \<not> retry (snd (pending w n))" for n
  have "P (maxNumberOfRetry - c)" using assms by (simp add: P_def)
  then have "\<exists>n. P n \<and> (\<forall>k<n. \<not> P k)" using exists_least_iff [of P] by blast
  then obtain m where m: "P m" and least: "\<forall>k<m. \<not> P k" by blast
  have le: "m \<le> maxNumberOfRetry - c"
  proof (rule ccontr)
    assume "\<not> m \<le> maxNumberOfRetry - c"
    then have "maxNumberOfRetry - c < m" by simp
    with least have "\<not> P (maxNumberOfRetry - c)" by blast
    with \<open>P (maxNumberOfRetry - c)\<close> show False by contradiction
  qed
  have 1: "c + m \<le> maxNumberOfRetry" using le assms by simp
  have 2: "\<forall>n<m. retry (snd (pending w n))" using least by (simp add: P_def)
  have 3: "c + m = maxNumberOfRetry \<or> \<not> retry (snd (pending w m))" using m by (simp add: P_def)
  show ?thesis using 1 2 3 by blast
qed

lemma backoff_value:
  "k < 4 \<Longrightarrow> backoff k = word_of_nat (2 ^ k * 50) * Millisecond \<and> sint (backoff k) = 2 ^ k * 50 * 1000000"
proof -
  assume "k < 4"
  then consider "k = 0" | "k = 1" | "k = 2" | "k = 3" by linarith
  then show ?thesis
    by cases (simp_all add: backoff_def Millisecond_def)
qed


lemma putItem_run:
  assumes "attributes \<noteq> []"
    and "m \<le> maxNumberOfRetry"
    and "\<forall>n<m. retry (snd (pending w n))"
    and "m = maxNumberOfRetry \<or> \<not> retry (snd (pending w m))"
  shows "\<exists>q. putItem NewJson t hashKey rangeKey attributes expected isRetry w =
           ((case snd (pending w m) of
               Some e \<Rightarrow> (False, Some e)
             | None \<Rightarrow> (case NewJson (fst (pending w m)) of
                          Inl e \<Rightarrow> (False, Some e) | Inr j \<Rightarrow> (True, None))),
            \<lparr>pending = (\<lambda>n. pending w (n + Suc m)),
             log = log w @ putTrace (target ''PutItem'') q isRetry 0 m\<rparr>)"
proof -
  have run: "putItem_loop (target ''PutItem'') q isRetry 0 w =
           (pending w m,
            \<lparr>pending = (\<lambda>n. pending w (n + Suc m)),
             log = log w @ putTrace (target ''PutItem'') q isRetry 0 m\<rparr>)" for q
    using assms(2-4) by (intro putItem_loop_run) auto
  show ?thesis
    using assms(1)
    by (cases "pending w m")
       (auto simp: putItem_def Let_def run split: option.splits sum.splits)
qed

lemma script_Nil [simp]: "script [] d n = d"
  by (simp add: script_def)

lemma retry_serverError: "retry (snd serverError)"
  by (simp add: retry_def serverError_def)

lemma not_retry_validationError: "\<not> retry (snd validationError)"
  by (simp add: retry_def validationError_def)




text \<open>
  The claim C2 as it is written says that \<^verbatim>\<open>putItem\<close> retries on any error while the
  budget lasts. It does not: a validation error (status 400) returned by the first attempt,
  with the whole budget left, comes back at once, after one attempt.
\<close>

theorem putItem_no_retry_on_validation_error:
  "snd (pending \<lparr>pending = script [] validationError, log = []\<rparr> 0) \<noteq> None \<and>
   0 < maxNumberOfRetry \<and>
   fst (putItem exampleReader exampleTable ''h'' ''r'' [exampleAttribute] None False
          \<lparr>pending = script [] validationError, log = []\<rparr>) = (False, snd validationError) \<and>
   attempts (log (snd (putItem exampleReader exampleTable ''h'' ''r''
          [exampleAttribute] None False \<lparr>pending = script [] validationError, log = []\<rparr>))) = 1"
proof -
  let ?w = "\<lparr>pending = script [] validationError, log = []\<rparr>"
  have ne: "[exampleAttribute] \<noteq> []" by simp
  obtain q where
    "putItem exampleReader exampleTable ''h'' ''r'' [exampleAttribute] None False ?w =
       ((case snd (pending ?w 0) of
               Some e \<Rightarrow> (False, Some e)
             | None \<Rightarrow> (case exampleReader (fst (pending ?w 0)) of
                          Inl e \<Rightarrow> (False, Some e) | Inr j \<Rightarrow> (True, None))),
        \<lparr>pending = (\<lambda>n. pending ?w (n + Suc 0)),
         log = log ?w @ putTrace (target ''PutItem'') q False 0 0\<rparr>)"
    using putItem_run [OF ne, of 0 ?w "exampleReader" exampleTable "''h''" "''r''" None False]
    by (auto simp: not_retry_validationError)
  then show ?thesis
    by (simp add: attempts_putTrace maxNumberOfRetry_def validationError_def)
qed


text \<open>
  C2, amended. In the retry loop of \<^verbatim>\<open>putItem\<close>, let attempt \<open>m\<close> be reached with budget
  left (\<open>m\<close> below 4) and return an error. The loop retries exactly when the error is a service
  error with status 500 or with code ThrottlingException or
  ProvisionedThroughputExceededException: then at least one more attempt is made. Every
  other error (a service error of another kind, an error of the transport) surfaces at
  once: it is the result, with false, and no further attempt is made.
\<close>

theorem putItem_retry_policy:
  assumes "attributes \<noteq> []"
    and "putItem NewJson t hashKey rangeKey attributes expected isRetry w = (res, w')"
    and "m < maxNumberOfRetry"
    and "\<forall>n<m. retry (snd (pending w n))"
    and "snd (pending w m) = Some err"
  shows "(retry (Some err) \<longleftrightarrow>
            (\<exists>e. err = DdbError e \<and>
               (StatusCode e = 500 \<or> Code e = ''ThrottlingException'' \<or>
                Code e = ''ProvisionedThroughputExceededException''))) \<and>
         (retry (Some err) \<longrightarrow> attempts (log w') \<ge> attempts (log w) + m + 2) \<and>
         (\<not> retry (Some err) \<longrightarrow>
            res = (False, Some err) \<and> attempts (log w') = attempts (log w) + m + 1)"
proof (intro conjI impI)
  show "retry (Some err) \<longleftrightarrow>
            (\<exists>e. err = DdbError e \<and>
               (StatusCode e = 500 \<or> Code e = ''ThrottlingException'' \<or>
                Code e = ''ProvisionedThroughputExceededException''))"
    by (cases err) (simp_all add: retry_def)
next
  assume r: "retry (Some err)"
  obtain k where k: "0 + k \<le> maxNumberOfRetry" "\<forall>n<k. retry (snd (pending w n))"
    "0 + k = maxNumberOfRetry \<or> \<not> retry (snd (pending w k))"
    using stop_index [of 0 w] by auto
  have "\<not> k \<le> m"
  proof
    assume "k \<le> m"
    then have "retry (snd (pending w k))"
      using assms(4,5) r by (cases "k = m") auto
    moreover have "k \<noteq> maxNumberOfRetry" using \<open>k \<le> m\<close> assms(3) by simp
    ultimately show False using k(3) by simp
  qed
  then have mk: "m + 1 \<le> k" by simp
  obtain q where
    "putItem NewJson t hashKey rangeKey attributes expected isRetry w =
       ((case snd (pending w k) of
               Some e \<Rightarrow> (False, Some e)
             | None \<Rightarrow> (case NewJson (fst (pending w k)) of
                          Inl e \<Rightarrow> (False, Some e) | Inr j \<Rightarrow> (True, None))),
        \<lparr>pending = (\<lambda>n. pending w (n + Suc k)),
         log = log w @ putTrace (target ''PutItem'') q isRetry 0 k\<rparr>)"
    using putItem_run [OF assms(1), of k w NewJson t hashKey rangeKey expected isRetry] k
    by auto
  with assms(2) have "log w' = log w @ putTrace (target ''PutItem'') q isRetry 0 k" by auto
  then show "attempts (log w) + m + 2 \<le> attempts (log w')"
    using mk by (simp add: attempts_append attempts_putTrace)
next
  assume nr: "\<not> retry (Some err)"
  obtain q where
    "putItem NewJson t hashKey rangeKey attributes expected isRetry w =
       ((False, Some err),
        \<lparr>pending = (\<lambda>n. pending w (n + Suc m)),
         log = log w @ putTrace (target ''PutItem'') q isRetry 0 m\<rparr>)"
    using putItem_run [OF assms(1), of m w NewJson t hashKey rangeKey expected isRetry]
      assms(3-5) nr
    by auto
  with assms(2) have res: "res = (False, Some err)"
    and w': "log w' = log w @ putTrace (target ''PutItem'') q isRetry 0 m" by auto
  show "res = (False, Some err)" by (rule res)
  show "attempts (log w') = attempts (log w) + m + 1"
    by (simp add: w' attempts_append attempts_putTrace)
qed


theorem putItem_retry_policy_witness:
  "fst (putItem exampleReader exampleTable ''h'' ''r'' [exampleAttribute] None False
          \<lparr>pending = script [serverError] validationError, log = []\<rparr>) = (False, snd validationError) \<and>
   attempts (log (snd (putItem exampleReader exampleTable ''h'' ''r''
          [exampleAttribute] None False \<lparr>pending = script [serverError] validationError, log = []\<rparr>))) = 2"
proof -
  let ?R = "exampleReader"
  let ?w = "\<lparr>pending = script [serverError] validationError, log = []\<rparr>"
  let ?p = "putItem ?R exampleTable ''h'' ''r'' [exampleAttribute] None False ?w"
  let ?e = "DdbError \<lparr>StatusCode = 400, Status = ''400 Bad Request'',
                     Code = ''ValidationException'', Message = []\<rparr>"
  have ne: "[exampleAttribute] \<noteq> []" by simp
  have e: "?p = (fst ?p, snd ?p)" by simp
  have m: "(1::nat) < maxNumberOfRetry" by (simp add: maxNumberOfRetry_def)
  have a: "\<forall>n<1. retry (snd (pending ?w n))" by (simp add: script_def retry_serverError)
  have b: "snd (pending ?w 1) = Some ?e" by (simp add: script_def validationError_def)
  have nr: "\<not> retry (Some ?e)" by (simp add: retry_def)
  have "fst ?p = (False, Some ?e) \<and> attempts (log (snd ?p)) = attempts (log ?w) + 1 + 1"
    using putItem_retry_policy [OF ne e m a b] nr by blast
  moreover have "attempts (log ?w) = 0" "Some ?e = snd validationError"
    by (simp_all add: validationError_def)
  ultimately show ?thesis by simp
qed

lemma putTrace_schedule:
  assumes "m \<le> 4"
  shows "putTrace tgt q isRetry 0 m =
     concat (map (\<lambda>k. [Sent tgt q isRetry, Slept (word_of_nat (2 ^ k * 50) * Millisecond)]) [0..<m])
       @ [Sent tgt q isRetry]"
proof -
  have "map (\<lambda>k. [Sent tgt q isRetry, Slept (backoff (0 + k))]) [0..<m] =
        map (\<lambda>k. [Sent tgt q isRetry, Slept (word_of_nat (2 ^ k * 50) * Millisecond)]) [0..<m]"
    using assms by (intro map_cong) (auto simp: backoff_value)
  then show ?thesis by (simp only: putTrace_def)
qed

text \<open>
  C3. Backoff schedule of \<^verbatim>\<open>putItem\<close>, called with at least one attribute. The run is
  \<open>m\<close> retries, at most four: attempt, wait, attempt, wait, and so on, ending with an
  attempt. The wait before retry \<open>k\<close> (counted from 0) is \<open>2^k * 50\<close> milliseconds, as a
  duration in nanoseconds without wrap-around: 50, 100, 200 and 400 milliseconds. The
  schedule depends on nothing but \<open>k\<close>.
\<close>

theorem putItem_backoff_schedule:
  assumes "attributes \<noteq> []"
    and "putItem NewJson t hashKey rangeKey attributes expected isRetry w = (res, w')"
  shows "\<exists>m q. m \<le> 4 \<and>
           log w' = log w @
             concat (map (\<lambda>k. [Sent (target ''PutItem'') q isRetry,
                                Slept (word_of_nat (2 ^ k * 50) * Millisecond)]) [0..<m])
             @ [Sent (target ''PutItem'') q isRetry] \<and>
           (\<forall>k<m. sint (word_of_nat (2 ^ k * 50) * Millisecond :: Duration) = 2 ^ k * 50 * 1000000)"
proof -
  obtain m where m: "0 + m \<le> maxNumberOfRetry" "\<forall>n<m. retry (snd (pending w n))"
    "0 + m = maxNumberOfRetry \<or> \<not> retry (snd (pending w m))"
    using stop_index [of 0 w] by auto
  then have m4: "m \<le> 4" by (simp add: maxNumberOfRetry_def)
  obtain q where
    "putItem NewJson t hashKey rangeKey attributes expected isRetry w =
       ((case snd (pending w m) of
               Some e \<Rightarrow> (False, Some e)
             | None \<Rightarrow> (case NewJson (fst (pending w m)) of
                          Inl e \<Rightarrow> (False, Some e) | Inr j \<Rightarrow> (True, None))),
        \<lparr>pending = (\<lambda>n. pending w (n + Suc m)),
         log = log w @ putTrace (target ''PutItem'') q isRetry 0 m\<rparr>)"
    using putItem_run [OF assms(1), of m w NewJson t hashKey rangeKey expected isRetry] m
    by auto
  with assms(2) have "log w' = log w @ putTrace (target ''PutItem'') q isRetry 0 m" by auto
  then have 1: "log w' = log w @
             concat (map (\<lambda>k. [Sent (target ''PutItem'') q isRetry,
                                Slept (word_of_nat (2 ^ k * 50) * Millisecond)]) [0..<m])
             @ [Sent (target ''PutItem'') q isRetry]"
    by (simp only: putTrace_schedule [OF m4])
  have 2: "\<forall>k<m. sint (word_of_nat (2 ^ k * 50) * Millisecond :: Duration) = 2 ^ k * 50 * 1000000"
  proof (intro allI impI)
    fix k assume "k < m"
    then have "k < 4" using m4 by simp
    from backoff_value [OF this]
    have b: "backoff k = word_of_nat (2 ^ k * 50) * Millisecond"
      and s: "sint (backoff k) = 2 ^ k * 50 * 1000000" by blast+
    show "sint (word_of_nat (2 ^ k * 50) * Millisecond :: Duration) = 2 ^ k * 50 * 1000000"
      unfolding b [symmetric] by (rule s)
  qed
  show ?thesis using m4 1 2 by blast
qed

theorem putItem_backoff_schedule_witness:
  "\<exists>q. log (snd (putItem exampleReader exampleTable ''h'' ''r'' [exampleAttribute] None False
                  \<lparr>pending = script [serverError, serverError] (''{}'', None), log = []\<rparr>)) =
        [Sent (target ''PutItem'') q False, Slept (50 * Millisecond),
         Sent (target ''PutItem'') q False, Slept (100 * Millisecond),
         Sent (target ''PutItem'') q False] \<and>
      sint (50 * Millisecond :: Duration) = 50000000 \<and>
      sint (100 * Millisecond :: Duration) = 100000000"
proof -
  let ?w = "\<lparr>pending = script [serverError, serverError] (''{}'', None), log = []\<rparr>"
  let ?p = "putItem exampleReader exampleTable ''h'' ''r'' [exampleAttribute] None False ?w"
  let ?T = "target ''PutItem''"
  have ne: "[exampleAttribute] \<noteq> []" by simp
  have e: "?p = (fst ?p, snd ?p)" by simp
  obtain m q where m4: "m \<le> 4"
    and L: "log (snd ?p) = log ?w @
             concat (map (\<lambda>k. [Sent ?T q False,
                                Slept (word_of_nat (2 ^ k * 50) * Millisecond)]) [0..<m])
             @ [Sent ?T q False]"
    and S: "\<forall>k<m. sint (word_of_nat (2 ^ k * 50) * Millisecond :: Duration) = 2 ^ k * 50 * 1000000"
    using putItem_backoff_schedule [OF ne e] by blast
  have lw: "log ?w = []" by simp
  have L': "log (snd ?p) = putTrace ?T q False 0 m"
    unfolding L lw putTrace_schedule [OF m4] by simp
  have h1: "(2::nat) \<le> maxNumberOfRetry" by (simp add: maxNumberOfRetry_def)
  have h2: "\<forall>n<2. retry (snd (pending ?w n))"
    by (simp add: script_def retry_serverError nth_Cons split: nat.splits)
  have h3: "2 = maxNumberOfRetry \<or> \<not> retry (snd (pending ?w 2))"
    by (simp add: script_def retry_def)
  obtain q' where "log (snd ?p) = log ?w @ putTrace ?T q' False 0 2"
    using putItem_run [OF ne h1 h2 h3, of exampleReader exampleTable "''h''" "''r''" None False]
    by auto
  then have "attempts (log (snd ?p)) = 3"
    by (simp add: attempts_append attempts_putTrace)
  then have m2: "m = 2" unfolding L' by (simp add: attempts_putTrace)
  have u: "[0..<2] = [0, Suc 0]" by (simp add: upt_conv_Cons)
  have 1: "log (snd ?p) =
        [Sent ?T q False, Slept (50 * Millisecond),
         Sent ?T q False, Slept (100 * Millisecond),
         Sent ?T q False]"
    unfolding L lw m2 u by simp
  have 2: "sint (50 * Millisecond :: Duration) = 50000000"
    using S unfolding m2 by (elim allE [of _ 0]) simp
  have 3: "sint (100 * Millisecond :: Duration) = 100000000"
    using S unfolding m2 by (elim allE [of _ 1]) simp
  show ?thesis using 1 2 3 by blast
qed


section \<open>The throttling tier of the transport\<close>

lemma rawTrace_Suc:
  "rawTrace tgt query rc (Suc n) =
     Requested tgt query # Slept ((rc + 1) * Second) # rawTrace tgt query (rc + 1) n"
  by (simp add: rawTrace_def upt_conv_Cons map_Suc_upt [symmetric] comp_def add.assoc del: upt_Suc)

lemma rawQueryServer_stop:
  assumes "\<not> throttled NewJson (pending w 0) \<or> sint rc < 0"
  shows "rawQueryServer NewJson tgt query rc w =
           Some (answer NewJson (pending w 0),
                 \<lparr>pending = (\<lambda>i. pending w (Suc i)), log = log w @ [Requested tgt query]\<rparr>)"
  using assms
  by (subst rawQueryServer.simps)
     (auto simp: consume_def throttled_def answer_def Let_def split: outcome.splits)

lemma sint_succ: 
  fixes rc :: "64 word"
  assumes "0 \<le> sint rc" and "sint rc + 1 < 2 ^ 63"
  shows "sint (rc + 1) = sint rc + 1"
  using assms
  by (simp add: sint_word_ariths signed_take_bit_int_eq_self)

lemma rawQueryServer_run:
  assumes "\<forall>i<n. throttled NewJson (pending w i)"
    and "\<not> throttled NewJson (pending w n)"
    and "0 \<le> sint rc" and "sint rc + int n < 2 ^ 63"
  shows "rawQueryServer NewJson tgt query rc w =
           Some (answer NewJson (pending w n),
                 \<lparr>pending = (\<lambda>i. pending w (i + Suc n)),
                  log = log w @ rawTrace tgt query rc n\<rparr>)"
  using assms
proof (induction n arbitrary: rc w)
  case 0
  then show ?case
    by (simp add: rawQueryServer_stop rawTrace_def)
next
  case (Suc n)
  let ?w1 = "\<lparr>pending = (\<lambda>i. pending w (Suc i)), log = log w @ [Requested tgt query]\<rparr>"
  let ?w2 = "sleepFor ((rc + 1) * Second) ?w1"
  have t0: "throttled NewJson (pending w 0)" using Suc.prems(1) by simp
  have step: "rawQueryServer NewJson tgt query rc w =
              rawQueryServer NewJson tgt query (rc + 1) ?w2"
    using t0 Suc.prems(3)
    by (subst rawQueryServer.simps)
       (auto simp: consume_def throttled_def Let_def split: outcome.splits)
  have p2: "pending ?w2 = (\<lambda>i. pending w (Suc i))" by (simp add: sleepFor_def)
  have s1: "sint (rc + 1) = sint rc + 1"
    using Suc.prems(3,4) by (intro sint_succ) auto
  have "rawQueryServer NewJson tgt query (rc + 1) ?w2 =
           Some (answer NewJson (pending ?w2 n),
                 \<lparr>pending = (\<lambda>i. pending ?w2 (i + Suc n)),
                  log = log ?w2 @ rawTrace tgt query (rc + 1) n\<rparr>)"
    using Suc.prems s1 by (intro Suc.IH) (auto simp: p2)
  then show ?case
    by (simp add: step p2 rawTrace_Suc sleepFor_def)
qed

lemma seconds_value:
  assumes "k \<le> 9223372036"
  shows "sint (word_of_nat k * Second :: 64 word) = int k * 1000000000"
proof -
  have k: "signed_take_bit 63 (int k) = int k"
    using assms by (intro signed_take_bit_int_eq_self) auto
  have p: "signed_take_bit 63 (int k * 1000000000) = int k * 1000000000"
    using assms by (intro signed_take_bit_int_eq_self) auto
  have "sint (word_of_nat k * Second :: 64 word) =
          signed_take_bit 63 (signed_take_bit 63 (int k) * 1000000000)"
    by (simp add: Second_def sint_word_ariths signed_of_nat)
  then show ?thesis by (simp only: k p)
qed

text \<open>
  C4. The throttling tier, entered as \<^verbatim>\<open>RawQueryTable\<close> enters it. An exchange is throttled
  when the response is not a 200 and the code extracted from it is
  ProvisionedThroughputExceededException. If the caller did not opt in, the call makes one
  exchange and returns its answer with no wait: for a throttled exchange that is the error.
  If the caller opted in and the first \<open>n\<close> exchanges are throttled and the next one is
  not, the call makes \<open>n + 1\<close> exchanges, waits before retry \<open>k\<close> (counted from 1) the
  duration \<open>k\<close> times a second, and returns the answer of the last exchange; \<open>n\<close> is any
  number a 64-bit counter can hold, there is no other cap. Read as a number of nanoseconds
  the wait is \<open>k\<close> seconds as long as that fits a duration (\<open>k\<close> up to 9223372036).
\<close>

theorem throttling_tier:
  "(\<not> isRetry \<longrightarrow>
      RawQueryTable_request NewJson query tgt isRetry w =
        Some (answer NewJson (pending w 0),
              \<lparr>pending = (\<lambda>i. pending w (Suc i)),
               log = log w @ [Requested (''DynamoDB_20120810.'' @ tgt) query]\<rparr>) \<and>
      (\<forall>resp. pending w 0 = Answer resp \<and> throttled NewJson (pending w 0) \<longrightarrow>
         answer NewJson (pending w 0) =
           ([], Some (DdbError (buildError NewJson resp (RespBody resp)))))) \<and>
   (isRetry \<and> (\<forall>i<n. throttled NewJson (pending w i)) \<and> \<not> throttled NewJson (pending w n)
      \<and> int n < 2 ^ 63 \<longrightarrow>
      RawQueryTable_request NewJson query tgt isRetry w =
        Some (answer NewJson (pending w n),
              \<lparr>pending = (\<lambda>i. pending w (i + Suc n)),
               log = log w @
                 concat (map (\<lambda>k. [Requested (''DynamoDB_20120810.'' @ tgt) query,
                                    Slept (word_of_nat (Suc k) * Second)]) [0..<n])
                 @ [Requested (''DynamoDB_20120810.'' @ tgt) query]\<rparr>) \<and>
      (\<forall>k<n. Suc k \<le> 9223372036 \<longrightarrow>
         sint (word_of_nat (Suc k) * Second :: Duration) = int (Suc k) * 1000000000))"
proof (intro conjI impI allI)
  assume "\<not> isRetry"
  then show "RawQueryTable_request NewJson query tgt isRetry w =
        Some (answer NewJson (pending w 0),
              \<lparr>pending = (\<lambda>i. pending w (Suc i)),
               log = log w @ [Requested (''DynamoDB_20120810.'' @ tgt) query]\<rparr>)"
    by (simp add: RawQueryTable_request_def rawQueryServer_stop)
next
  fix resp
  assume "pending w 0 = Answer resp \<and> throttled NewJson (pending w 0)"
  then show "answer NewJson (pending w 0) =
           ([], Some (DdbError (buildError NewJson resp (RespBody resp))))"
    by (auto simp: answer_def throttled_def)
next
  assume h: "isRetry \<and> (\<forall>i<n. throttled NewJson (pending w i)) \<and>
             \<not> throttled NewJson (pending w n) \<and> int n < 2 ^ 63"
  have "rawQueryServer NewJson (''DynamoDB_20120810.'' @ tgt) query 0 w =
           Some (answer NewJson (pending w n),
                 \<lparr>pending = (\<lambda>i. pending w (i + Suc n)),
                  log = log w @ rawTrace (''DynamoDB_20120810.'' @ tgt) query 0 n\<rparr>)"
    using h by (intro rawQueryServer_run) auto
  then show "RawQueryTable_request NewJson query tgt isRetry w =
        Some (answer NewJson (pending w n),
              \<lparr>pending = (\<lambda>i. pending w (i + Suc n)),
               log = log w @
                 concat (map (\<lambda>k. [Requested (''DynamoDB_20120810.'' @ tgt) query,
                                    Slept (word_of_nat (Suc k) * Second)]) [0..<n])
                 @ [Requested (''DynamoDB_20120810.'' @ tgt) query]\<rparr>)"
    using h by (simp add: RawQueryTable_request_def rawTrace_def)
next
  fix k
  assume "Suc k \<le> 9223372036"
  then show "sint (word_of_nat (Suc k) * Second :: Duration) = int (Suc k) * 1000000000"
    by (rule seconds_value)
qed

lemma throttled_throttleAnswer: "throttled exampleReader throttleAnswer"
  by (simp add: throttled_def throttleAnswer_def buildError_def exampleReader_def readerOf_def
      Get_def MustString_def ProvisionedThroughputExceeded_def Let_def)

lemma not_throttled_ok: "\<not> throttled NewJson (Answer (Response 200 ''200 OK'' body))"
  by (simp add: throttled_def)

theorem throttling_tier_witness:
  "RawQueryTable_request exampleReader ''q'' ''Query'' False
     \<lparr>pending = script [] throttleAnswer, log = []\<rparr> =
     Some (answer exampleReader throttleAnswer,
           \<lparr>pending = (\<lambda>i. script [] throttleAnswer (Suc i)),
            log = [Requested ''DynamoDB_20120810.Query'' ''q'']\<rparr>) \<and>
   RawQueryTable_request exampleReader ''q'' ''Query'' True
     \<lparr>pending = script [throttleAnswer, throttleAnswer] (Answer (Response 200 ''200 OK'' ''{}'')),
      log = []\<rparr> =
     Some ((''{}'', None),
           \<lparr>pending = (\<lambda>i. script [throttleAnswer, throttleAnswer]
                                (Answer (Response 200 ''200 OK'' ''{}'')) (i + 3)),
            log = [Requested ''DynamoDB_20120810.Query'' ''q'', Slept (1 * Second),
                   Requested ''DynamoDB_20120810.Query'' ''q'', Slept (2 * Second),
                   Requested ''DynamoDB_20120810.Query'' ''q'']\<rparr>)"
proof -
  let ?ok = "Answer (Response 200 ''200 OK'' ''{}'')"
  let ?w1 = "\<lparr>pending = script [] throttleAnswer, log = []\<rparr>"
  let ?w2 = "\<lparr>pending = script [throttleAnswer, throttleAnswer] ?ok, log = []\<rparr>"
  have a: "(\<forall>i<2. throttled exampleReader (pending ?w2 i)) \<and>
           \<not> throttled exampleReader (pending ?w2 2) \<and> int 2 < 2 ^ 63"
    by (simp add: script_def throttled_throttleAnswer not_throttled_ok nth_Cons
        split: nat.splits)
  have 1: "RawQueryTable_request exampleReader ''q'' ''Query'' False ?w1 =
        Some (answer exampleReader (pending ?w1 0),
              \<lparr>pending = (\<lambda>i. pending ?w1 (Suc i)),
               log = log ?w1 @ [Requested (''DynamoDB_20120810.'' @ ''Query'') ''q'']\<rparr>)"
    using throttling_tier [of False exampleReader "''q''" "''Query''" ?w1 0] by blast
  have 2: "RawQueryTable_request exampleReader ''q'' ''Query'' True ?w2 =
        Some (answer exampleReader (pending ?w2 2),
              \<lparr>pending = (\<lambda>i. pending ?w2 (i + Suc 2)),
               log = log ?w2 @
                 concat (map (\<lambda>k. [Requested (''DynamoDB_20120810.'' @ ''Query'') ''q'',
                                    Slept (word_of_nat (Suc k) * Second)]) [0..<2])
                 @ [Requested (''DynamoDB_20120810.'' @ ''Query'') ''q'']\<rparr>)"
    using throttling_tier [of True exampleReader "''q''" "''Query''" ?w2 2] a by blast
  have u: "[0..<2] = [0, Suc 0]" by (simp add: upt_conv_Cons)
  have ans: "answer exampleReader (pending ?w2 2) = (''{}'', None)"
    by (simp add: answer_def script_def)
  show ?thesis
    unfolding 1 2 ans u by (simp add: numeral_3_eq_3)
qed

section \<open>Reading responses\<close>

text \<open>
  C5. \<^verbatim>\<open>GetItem\<close> (and \<^verbatim>\<open>getItem\<close> with either consistency flag) on a successful
  response whose body is a JSON document: if the document has no \<open>Item\<close> member the result
  is the nil map with the sentinel \<^verbatim>\<open>ErrNotFound\<close>, which is no other error; if the
  member is the empty object the result is a map that is not nil and holds no attribute,
  with a nil error.
\<close>

theorem getItem_not_found_distinction:
  assumes "pending w 0 = (jsonResponse, None)" and "NewJson jsonResponse = Inr json"
  shows "(CheckGet json ''Item'' = None \<longrightarrow>
            fst (getItem NewJson t key consistentRead isRetry w) = (None, Some ErrNotFound) \<and>
            fst (GetItem NewJson t key isRetry w) = (None, Some ErrNotFound)) \<and>
         (CheckGet json ''Item'' = Some (JObject []) \<longrightarrow>
            fst (getItem NewJson t key consistentRead isRetry w) = (Some Map.empty, None) \<and>
            fst (GetItem NewJson t key isRetry w) = (Some Map.empty, None))"
  using assms
  by (simp add: GetItem_def getItem_def queryServer_def consume_def Map_def parseAttributes_def
      Let_def)


theorem getItem_not_found_distinction_witness:
  "fst (GetItem exampleReader exampleTable exampleKey False
          \<lparr>pending = script [] (''{}'', None), log = []\<rparr>) = (None, Some ErrNotFound) \<and>
   fst (GetItem exampleReader exampleTable exampleKey False
          \<lparr>pending = script [] (''item'', None), log = []\<rparr>) = (Some Map.empty, None)"
proof -
  have a: "pending \<lparr>pending = script [] (''{}'', None :: error option), log = []\<rparr> 0 =
             (''{}'', None)"
    by (simp add: script_def)
  have b: "exampleReader ''{}'' = Inr (JObject [])"
    by (simp add: exampleReader_def readerOf_def)
  have c: "pending \<lparr>pending = script [] (''item'', None :: error option), log = []\<rparr> 0 =
             (''item'', None)"
    by (simp add: script_def)
  have d: "exampleReader ''item'' = Inr (JObject [(''Item'', JObject [])])"
    by (simp add: exampleReader_def readerOf_def)
  show ?thesis
    using getItem_not_found_distinction
            [where NewJson = exampleReader and json = "JObject []"
               and consistentRead = False, OF a b]
      getItem_not_found_distinction
            [where NewJson = exampleReader and json = "JObject [(''Item'', JObject [])]"
               and consistentRead = False, OF c d]
    by (simp add: CheckGet_def)
qed

text \<open>
  C8. \<^verbatim>\<open>BatchWriteItem.Execute\<close> on a successful response whose body is a JSON document
  with an object under \<open>UnprocessedItems\<close>: if that mapping is empty the result is
  (nil, nil); if not, the result is that very mapping together with the error
  "One or more unprocessed items.".
\<close>

theorem batchWrite_unprocessed:
  assumes "pending w 0 = (jsonResponse, None)" and "NewJson jsonResponse = Inr json"
    and "Map (Get json ''UnprocessedItems'') = Some unprocessed"
  shows "(unprocessed = [] \<longrightarrow>
            fst (BatchWriteItem_Execute NewJson ItemActions isRetry w) = (None, None)) \<and>
         (unprocessed \<noteq> [] \<longrightarrow>
            fst (BatchWriteItem_Execute NewJson ItemActions isRetry w) =
              (Some unprocessed, Some (ErrorsNew ''One or more unprocessed items.'')))"
  using assms
  by (simp add: BatchWriteItem_Execute_def queryServer_def consume_def)


theorem batchWrite_unprocessed_witness:
  "fst (BatchWriteItem_Execute exampleReader [] False
          \<lparr>pending = script [] (''done'', None), log = []\<rparr>) = (None, None) \<and>
   fst (BatchWriteItem_Execute exampleReader [] False
          \<lparr>pending = script [] (''left'', None), log = []\<rparr>) =
     (Some [(''T'', JArray [JObject []])], Some (ErrorsNew ''One or more unprocessed items.''))"
proof -
  have a: "pending \<lparr>pending = script [] (''done'', None :: error option), log = []\<rparr> 0 =
             (''done'', None)"
    by (simp add: script_def)
  have b: "exampleReader ''done'' = Inr (JObject [(''UnprocessedItems'', JObject [])])"
    by (simp add: exampleReader_def readerOf_def)
  have m1: "Map (Get (JObject [(''UnprocessedItems'', JObject [])]) ''UnprocessedItems'') = Some []"
    by (simp add: Map_def Get_def)
  have c: "pending \<lparr>pending = script [] (''left'', None :: error option), log = []\<rparr> 0 =
             (''left'', None)"
    by (simp add: script_def)
  have d: "exampleReader ''left'' =
             Inr (JObject [(''UnprocessedItems'', JObject [(''T'', JArray [JObject []])])])"
    by (simp add: exampleReader_def readerOf_def)
  have m2: "Map (Get (JObject [(''UnprocessedItems'', JObject [(''T'', JArray [JObject []])])])
                  ''UnprocessedItems'') = Some [(''T'', JArray [JObject []])]"
    by (simp add: Map_def Get_def)
  show ?thesis
    using batchWrite_unprocessed
            [where NewJson = exampleReader and ItemActions = "[]" and isRetry = False,
             OF a b m1]
      batchWrite_unprocessed
            [where NewJson = exampleReader and ItemActions = "[]" and isRetry = False,
             OF c d m2]
    by simp
qed

section \<open>The code of a service error\<close>

lemma Index_none: "sep \<notin> set s \<Longrightarrow> Index s sep = - 1"
  by (induction s) auto

lemma Index_nonneg_or: "Index s sep = - 1 \<or> 0 \<le> Index s sep"
  by (induction s) (auto simp: Let_def)

lemma Index_first: "sep \<notin> set pre \<Longrightarrow> Index (pre @ sep # suf) sep = int (length pre)"
  by (induction pre) (auto simp: Let_def)

text \<open>
  The claim C6 as it is written takes the suffix after the last \<open>#\<close>. The code cuts at the
  first one: of the type string \<open>a#b#c\<close> it keeps \<open>b#c\<close>, where the suffix after the last
  \<open>#\<close> is \<open>c\<close>.
\<close>

theorem buildError_code_not_after_last_hash:
  "Code (buildError exampleReader (Response 400 ''400 Bad Request'' ''nested'') ''nested'') = ''b#c'' \<and>
   Code_spec ''a#b#c'' = ''c''"
  by (simp add: buildError_def exampleReader_def readerOf_def Get_def MustString_def
      Code_spec_def Let_def)

text \<open>
  C6, amended. For every response body that is a JSON document, with \<open>codeStr\<close> the string
  under \<open>__type\<close> (empty when there is none): if \<open>codeStr\<close> has no \<open>#\<close>, the code of the
  error is the whole of \<open>codeStr\<close>; if its first \<open>#\<close> comes after at least one character,
  the code is what follows that first \<open>#\<close>.
\<close>

theorem buildError_code_first_hash:
  assumes "NewJson jsonBody = Inr json" and "MustString (Get json ''__type'') = codeStr"
  shows "(CHR ''#'' \<notin> set codeStr \<longrightarrow> Code (buildError NewJson r jsonBody) = codeStr) \<and>
         (\<forall>pre suf. codeStr = pre @ CHR ''#'' # suf \<and> pre \<noteq> [] \<and> CHR ''#'' \<notin> set pre \<longrightarrow>
              Code (buildError NewJson r jsonBody) = suf)"
  using assms
  by (auto simp: buildError_def Let_def Index_none Index_first nat_add_distrib)


theorem buildError_code_first_hash_witness:
  "Code (buildError exampleReader (Response 400 ''400 Bad Request'' ''validation'') ''validation'')
     = ''ValidationException'' \<and>
   Code (buildError exampleReader (Response 400 ''400 Bad Request'' ''plain'') ''plain'')
     = ''ValidationException''"
proof -
  let ?r = "Response 400 ''400 Bad Request''"
  have a: "exampleReader ''validation'' =
             Inr (JObject [(''__type'', JString ''com.amazon.coral.validate#ValidationException'')])"
    by (simp add: exampleReader_def readerOf_def)
  have b: "MustString (Get (JObject [(''__type'',
              JString ''com.amazon.coral.validate#ValidationException'')]) ''__type'') =
           ''com.amazon.coral.validate#ValidationException''"
    by (simp add: Get_def MustString_def)
  have c: "exampleReader ''plain'' = Inr (JObject [(''__type'', JString ''ValidationException'')])"
    by (simp add: exampleReader_def readerOf_def)
  have d: "MustString (Get (JObject [(''__type'', JString ''ValidationException'')]) ''__type'') =
           ''ValidationException''"
    by (simp add: Get_def MustString_def)
  have split: "''com.amazon.coral.validate#ValidationException'' =
                 ''com.amazon.coral.validate'' @ CHR ''#'' # ''ValidationException'' \<and>
               ''com.amazon.coral.validate'' \<noteq> [] \<and>
               CHR ''#'' \<notin> set ''com.amazon.coral.validate''"
    by simp
  have nohash: "CHR ''#'' \<notin> set ''ValidationException''" by simp
  have 1: "Code (buildError exampleReader (?r ''validation'') ''validation'') = ''ValidationException''"
    using buildError_code_first_hash
            [where NewJson = exampleReader and r = "?r ''validation''", OF a b] split
    by blast
  have 2: "Code (buildError exampleReader (?r ''plain'') ''plain'') = ''ValidationException''"
    using buildError_code_first_hash
            [where NewJson = exampleReader and r = "?r ''plain''", OF c d] nohash
    by blast
  show ?thesis using 1 2 by blast
qed

end
